theory Spec2Isabelle
  imports Main "HOL-Library.Sublist"
begin

section \<open>Data model\<close>

text \<open>
  Strings are \<^typ>\<open>string\<close>: the UTF-8 bytes of the JavaScript string. The two
  literals the authorization logic compares with are ASCII, so a tail match and an
  equality on bytes are the tail match and the equality on UTF-16 code units that
  JavaScript computes.
\<close>

text \<open>
  The verified identity handed to the strategy's verify callback. \<open>emails\<close> holds the
  \<open>value\<close> fields of \<open>profile.emails\<close>, in order; the empty list also stands for a
  profile without the array: in both cases \<open>profile.emails[0].value\<close> throws a
  TypeError.
\<close>

record profile =
  emails :: "string list"
  displayName :: string

text \<open>The object \<open>{ email, name: profile.displayName, role }\<close> passed to \<open>done\<close>.\<close>

record session_user =
  email :: string
  name :: string
  role :: string

datatype js_error = TypeError | LogoutError

text \<open>
  The three ways the verify callback calls \<open>done\<close>: \<open>done(err, null)\<close>,
  \<open>done(null, false, { message })\<close> and \<open>done(null, user)\<close>.
\<close>

datatype verify_result =
    Done_err js_error
  | Done_fail string
  | Done_user session_user

section \<open>Authorization logic of the verify callback\<close>

text \<open>\<open>String.prototype.endsWith\<close> with one argument.\<close>

definition endsWith :: "string \<Rightarrow> string \<Rightarrow> bool" where
  "endsWith s searchString =
     (length searchString \<le> length s \<and>
      drop (length s - length searchString) s = searchString)"

text \<open>
  The block between \<open>let role = "general"\<close> and the test of \<open>isAuthorized\<close>, as
  src/server.js and src/unnamed/part_000 write it: one condition, a disjunction.
  The result is the pair \<open>(role, isAuthorized)\<close> after the block.
\<close>

definition authorization_logic :: "string \<Rightarrow> string \<times> bool" where
  "authorization_logic e =
     (let role0 = ''general''; isAuthorized0 = False in
      if endsWith e ''@stu.pathfinder-mm.org'' \<or> e = ''avagarimike11@gmail.com''
      then (''student'', True)
      else (role0, isAuthorized0))"

text \<open>The same block as src/unnamed/part_001 writes it: two if-statements in sequence.\<close>

definition authorization_logic_two_if :: "string \<Rightarrow> string \<times> bool" where
  "authorization_logic_two_if e =
     (let role0 = ''general''; isAuthorized0 = False;
          (role1, isAuthorized1) =
            (if endsWith e ''@stu.pathfinder-mm.org''
             then (''student'', True) else (role0, isAuthorized0));
          (role2, isAuthorized2) =
            (if e = ''avagarimike11@gmail.com''
             then (''student'', True) else (role1, isAuthorized1))
      in (role2, isAuthorized2))"

text \<open>
  The verify callback of the Google strategy (src/server.js). An exception inside the
  \<open>try\<close> block is caught and handed to \<open>done(err, null)\<close>.
\<close>

definition verify :: "profile \<Rightarrow> verify_result" where
  "verify p =
     (case emails p of
        [] \<Rightarrow> Done_err TypeError
      | e # _ \<Rightarrow>
          (let (role1, isAuthorized) = authorization_logic e in
           if \<not> isAuthorized
           then Done_fail ''You are not a verified student of Pathfinder Institute Myanmar.''
           else Done_user \<lparr>email = e, name = displayName p, role = role1\<rparr>))"

text \<open>The verify callback of src/unnamed/part_001.\<close>

definition verify_two_if :: "profile \<Rightarrow> verify_result" where
  "verify_two_if p =
     (case emails p of
        [] \<Rightarrow> Done_err TypeError
      | e # _ \<Rightarrow>
          (let (role1, isAuthorized) = authorization_logic_two_if e in
           if \<not> isAuthorized
           then Done_fail ''You are not a verified student of Pathfinder Institute Myanmar.''
           else Done_user \<lparr>email = e, name = displayName p, role = role1\<rparr>))"

section \<open>Sessions, requests and responses\<close>

text \<open>\<open>passport.serializeUser((user, done) => done(null, user))\<close>.\<close>

definition serializeUser :: "session_user \<Rightarrow> session_user" where
  "serializeUser u = u"

text \<open>\<open>passport.deserializeUser((obj, done) => done(null, obj))\<close>.\<close>

definition deserializeUser :: "session_user \<Rightarrow> session_user" where
  "deserializeUser obj = obj"

text \<open>
  What the session store keeps under a session ID: the serialized user that passport
  writes to \<open>req.session.passport.user\<close> at login (absent before), the messages kept
  under \<open>req.session.flash.error\<close>, and the instant, in milliseconds, at which the
  record expires.
\<close>

record session_data =
  passport_user :: "session_user option"
  flash_error :: "string list"
  expiresAt :: nat

type_synonym session_store = "string \<rightharpoonup> session_data"

text \<open>
  The request as the route handlers see it, after the session, passport and flash
  middleware have run: \<open>req.sessionID\<close>, \<open>req.user\<close> (undefined when the session
  holds no user) and the messages \<open>req.flash("error")\<close> would return.
\<close>

record request =
  sessionID :: string
  user :: "session_user option"
  flash :: "string list"

datatype json_value = JBool bool | JString string

text \<open>
  What a handler does with \<open>res\<close> or \<open>next\<close>: \<open>res.redirect(url)\<close>,
  \<open>res.json(obj)\<close> (the object as its key/value pairs, in order),
  \<open>res.sendFile(path)\<close>, \<open>res.send(body)\<close>, or an error handed to Express
  (\<open>next(err)\<close>, or an exception thrown in the handler).
\<close>

datatype response =
    Redirect string
  | Json "(string \<times> json_value) list"
  | SendFile string
  | Send string
  | Next_err js_error

section \<open>The session configuration of src/server.js\<close>

text \<open>\<open>cookie: { maxAge: 14 * 24 * 60 * 60 * 1000 }\<close>, in milliseconds.\<close>

definition cookie_maxAge :: nat where
  "cookie_maxAge = 14 * 24 * 60 * 60 * 1000"

text \<open>\<open>new RedisStore({ ttl: 14 * 24 * 60 * 60 })\<close>, in seconds.\<close>

definition store_ttl :: nat where
  "store_ttl = 14 * 24 * 60 * 60"

text \<open>\<open>rolling: true\<close>.\<close>

definition rolling :: bool where
  "rolling = True"

section \<open>Route guard and handlers\<close>

text \<open>
  \<open>req.isAuthenticated()\<close> as passport defines it: true exactly when \<open>req.user\<close>
  is set.
\<close>

definition isAuthenticated :: "request \<Rightarrow> bool" where
  "isAuthenticated req = (user req \<noteq> None)"

text \<open>
  \<open>function ensureLoggedIn(req, res, next)\<close>: \<open>next\<close> is the rest of the route,
  here the handler registered after the guard.
\<close>

definition ensureLoggedIn :: "request \<Rightarrow> (request \<Rightarrow> response) \<Rightarrow> response" where
  "ensureLoggedIn req next =
     (if isAuthenticated req then next req else Redirect ''/index.html'')"

text \<open>
  The handler of \<open>/session-info\<close>. Reading \<open>req.user.email\<close> with \<open>req.user\<close>
  undefined throws a TypeError.
\<close>

definition session_info_handler :: "request \<Rightarrow> response" where
  "session_info_handler req =
     (case user req of
        None \<Rightarrow> Next_err TypeError
      | Some u \<Rightarrow>
          Json [(''loggedIn'', JBool True),
                (''email'', JString (email u)),
                (''name'', JString (name u)),
                (''role'', JString (role u))])"

text \<open>
  \<open>path.join(process.cwd(), "public", "dashboard.html")\<close>, for the absolute,
  normalized path \<open>cwd\<close> that \<open>process.cwd()\<close> returns.
\<close>

definition dashboard_path :: "string \<Rightarrow> string" where
  "dashboard_path cwd =
     (if cwd = ''/'' then ''/public/dashboard.html'' else cwd @ ''/public/dashboard.html'')"

text \<open>The handler of \<open>/dashboard\<close> in src/server.js and src/unnamed/part_000.\<close>

definition dashboard_handler :: "string \<Rightarrow> request \<Rightarrow> response" where
  "dashboard_handler cwd req = SendFile (dashboard_path cwd)"

definition nl :: string where
  "nl = [CHR 0x0A]"

text \<open>
  The expression \<open>role === "student" ? `...` : `...`\<close> interpolated into the page of
  src/unnamed/part_001.
\<close>

definition role_block :: "string \<Rightarrow> string" where
  \<open>role_block r =
     (if r = ''student''
      then ''<div class="card stu"><h3>Student Docs Section</h3></div>''
      else ''<div class="card gen"><h3>Enrollment Section</h3></div>'')\<close>

text \<open>The template literal of src/unnamed/part_001 up to the interpolated block.\<close>

definition dashboard_head :: "session_user \<Rightarrow> string" where
  \<open>dashboard_head u = concat
     [nl,
      ''    <html>'', nl,
      ''      <head>'', nl,
      ''        <title>Dashboard</title>'', nl,
      ''        <style>'', nl,
      ''          body { font-family: Arial; padding: 20px; }'', nl,
      ''          .card { padding: 20px; border: 1px solid #ddd; border-radius: 10px; margin-top: 20px; }'', nl,
      ''          .stu { background: #e3f2fd; }'', nl,
      ''          .gen { background: #fff3e0; }'', nl,
      ''        </style>'', nl,
      ''      </head>'', nl,
      ''      <body>'', nl,
      ''        <h2>Welcome '', name u, ''</h2>'', nl,
      ''        <p>Email: '', email u, ''</p>'', nl,
      ''        <p>Role: <b>'', role u, ''</b></p>'', nl,
      ''        '']\<close>

text \<open>The template literal after the interpolated block.\<close>

definition dashboard_tail :: string where
  \<open>dashboard_tail = concat
     [nl,
      ''        <br>'', nl,
      ''        <a href="/logout">Logout</a>'', nl,
      ''      </body>'', nl,
      ''    </html>'', nl,
      ''  '']\<close>

text \<open>
  The handler of \<open>/dashboard\<close> in src/unnamed/part_001. Destructuring \<open>req.user\<close>
  when it is undefined throws a TypeError.
\<close>

definition dashboard_handler_part_001 :: "request \<Rightarrow> response" where
  "dashboard_handler_part_001 req =
     (case user req of
        None \<Rightarrow> Next_err TypeError
      | Some u \<Rightarrow> Send (dashboard_head u @ role_block (role u) @ dashboard_tail))"

text \<open>The guarded routes: \<open>app.get(path, ensureLoggedIn, handler)\<close>.\<close>

definition session_info_route :: "request \<Rightarrow> response" where
  "session_info_route req = ensureLoggedIn req session_info_handler"

definition dashboard_route :: "string \<Rightarrow> request \<Rightarrow> response" where
  "dashboard_route cwd req = ensureLoggedIn req (dashboard_handler cwd)"

definition dashboard_route_part_001 :: "request \<Rightarrow> response" where
  "dashboard_route_part_001 req = ensureLoggedIn req dashboard_handler_part_001"

section \<open>Login routes\<close>

text \<open>
  \<open>encodeURIComponent\<close> on the UTF-8 bytes of a well-formed string: the letters, the
  digits and \<open>- _ . ! ~ * ' ( )\<close> stay, every other byte becomes \<open>%\<close> and two
  upper-case hexadecimal digits.
\<close>

definition uriUnreserved :: "char \<Rightarrow> bool" where
  "uriUnreserved c =
     (c \<in> set ''ABCDEFGHIJKLMNOPQRSTUVWXYZabcdefghijklmnopqrstuvwxyz0123456789-_.!~*()''
      \<or> c = CHR 0x27)"

definition hexDigit :: "nat \<Rightarrow> char" where
  "hexDigit d = ''0123456789ABCDEF'' ! d"

definition percentEncode :: "char \<Rightarrow> string" where
  "percentEncode c =
     [CHR ''%'', hexDigit (of_char c div 16), hexDigit (of_char c mod 16)]"

definition encodeURIComponent :: "string \<Rightarrow> string" where
  "encodeURIComponent s =
     concat (map (\<lambda>c. if uriUnreserved c then [c] else percentEncode c) s)"

text \<open>
  The handler registered after \<open>passport.authenticate\<close> on
  \<open>/auth/google/callback\<close>.
\<close>

definition callback_handler :: "request \<Rightarrow> response" where
  "callback_handler req = Redirect ''/dashboard''"

text \<open>
  The handler of \<open>/auth/failure\<close>; \<open>flash req\<close> is what \<open>req.flash("error")\<close>
  returns.
\<close>

definition auth_failure_handler :: "request \<Rightarrow> response" where
  "auth_failure_handler req =
     (let messages = flash req;
          errorMessage = (if length messages \<noteq> 0 then messages ! 0 else ''Login failed.'');
          encodedMessage = encodeURIComponent errorMessage
      in Redirect (''/index.html?authError='' @ encodedMessage))"

section \<open>The session store and the middleware in front of the routes\<close>

text \<open>
  Modelled from the spec: the session store adapter (connect-redis, or the in-process
  store of express-session) is not under src/. The spec gives its contract:
  \<open>get(key) -> value | absent\<close>, \<open>delete(key)\<close>, and expiry enforced by the store, a
  record past its expiry being absent.
\<close>

definition store_get :: "nat \<Rightarrow> session_store \<Rightarrow> string \<Rightarrow> session_data option" where
  "store_get now st sid =
     (case st sid of
        None \<Rightarrow> None
      | Some d \<Rightarrow> if expiresAt d \<le> now then None else Some d)"

definition session_destroy :: "session_store \<Rightarrow> string \<Rightarrow> session_store" where
  "session_destroy st sid = st(sid := None)"

text \<open>
  Modelled from the spec: the rolling refresh is done by the session middleware
  (express-session), which is not under src/; src/server.js only configures it with
  \<open>rolling: true\<close> and the cookie's \<open>maxAge\<close>. The spec: every authenticated request
  that reaches the route guard extends the session's expiry by the fixed window.
\<close>

definition touch :: "nat \<Rightarrow> session_data \<Rightarrow> session_data" where
  "touch now d = (if rolling then d\<lparr>expiresAt := now + cookie_maxAge\<rparr> else d)"

definition refresh :: "nat \<Rightarrow> session_store \<Rightarrow> string \<Rightarrow> session_store" where
  "refresh now st sid =
     (case store_get now st sid of
        None \<Rightarrow> st
      | Some d \<Rightarrow> st(sid \<mapsto> touch now d))"

text \<open>
  The request a handler receives at time \<open>now\<close> for the session ID \<open>sid\<close>:
  \<open>passport.session()\<close> sets \<open>req.user\<close> to \<open>deserializeUser\<close> of the user kept
  in the session, when there is one.
\<close>

definition incoming :: "nat \<Rightarrow> session_store \<Rightarrow> string \<Rightarrow> request" where
  "incoming now st sid =
     (case store_get now st sid of
        None \<Rightarrow> \<lparr>sessionID = sid, user = None, flash = []\<rparr>
      | Some d \<Rightarrow>
          \<lparr>sessionID = sid,
           user = map_option deserializeUser (passport_user d),
           flash = flash_error d\<rparr>)"

text \<open>
  A guarded route at time \<open>now\<close> for the session ID \<open>sid\<close>: the guard and the
  handler of src/server.js on the request the middleware builds, and the rolling
  refresh of the session the request came with.
\<close>

definition guarded_request ::
  "nat \<Rightarrow> session_store \<Rightarrow> string \<Rightarrow> (request \<Rightarrow> response) \<Rightarrow> response \<times> session_store" where
  "guarded_request now st sid handler =
     (ensureLoggedIn (incoming now st sid) handler, refresh now st sid)"

text \<open>The session a request at time \<open>now\<close> works on: the stored one, or a new one.\<close>

definition current_session :: "nat \<Rightarrow> session_store \<Rightarrow> string \<Rightarrow> session_data" where
  "current_session now st sid =
     (case store_get now st sid of
        None \<Rightarrow> \<lparr>passport_user = None, flash_error = [], expiresAt = now + cookie_maxAge\<rparr>
      | Some d \<Rightarrow> d)"

text \<open>
  The route \<open>/auth/google/callback\<close> once the provider has returned a profile:
  \<open>passport.authenticate("google", { failureRedirect: "/auth/failure", failureFlash:
  true })\<close>, then the route's handler. passport (not under src/) acts on how the verify
  callback called \<open>done\<close>: an error goes to \<open>next(err)\<close>; a failure stores
  \<open>info.message\<close> as an \<open>error\<close> flash message in the session and redirects to
  \<open>failureRedirect\<close>; a user is serialized into the session and the handler runs.
  passport gives the session a new ID at login; \<open>sid\<close> is the ID under which the
  session is kept when the request ends.
\<close>

definition login_callback ::
  "nat \<Rightarrow> session_store \<Rightarrow> string \<Rightarrow> profile \<Rightarrow> response \<times> session_store" where
  "login_callback now st sid p =
     (let d = current_session now st sid in
      case verify p of
        Done_err e \<Rightarrow> (Next_err e, st)
      | Done_fail message \<Rightarrow>
          (Redirect ''/auth/failure'',
           st(sid \<mapsto> touch now (d\<lparr>flash_error := flash_error d @ [message]\<rparr>)))
      | Done_user u \<Rightarrow>
          (callback_handler \<lparr>sessionID = sid, user = Some u, flash = flash_error d\<rparr>,
           st(sid \<mapsto> touch now (d\<lparr>passport_user := Some (serializeUser u)\<rparr>))))"

text \<open>
  The route \<open>/auth/failure\<close>: \<open>req.flash("error")\<close> also removes the messages it
  returns from the session, and the session it wrote to is saved: for a visitor
  without a live session that is a new record with no user and no message.
\<close>

definition auth_failure_route ::
  "nat \<Rightarrow> session_store \<Rightarrow> string \<Rightarrow> response \<times> session_store" where
  "auth_failure_route now st sid =
     (auth_failure_handler (incoming now st sid),
      st(sid \<mapsto> touch now ((current_session now st sid)\<lparr>flash_error := []\<rparr>)))"

section \<open>Logout\<close>

text \<open>
  The handler of \<open>/logout\<close>. \<open>err\<close> is what passport's \<open>req.logout\<close> hands to its
  callback. \<open>req.session.destroy\<close> deletes the record of \<open>req.sessionID\<close>; its
  callback takes no argument, so a failure of the deletion is not looked at.
\<close>

definition logout_handler ::
  "js_error option \<Rightarrow> session_store \<Rightarrow> request \<Rightarrow> response \<times> session_store" where
  "logout_handler err st req =
     (case err of
        Some e \<Rightarrow> (Next_err e, st)
      | None \<Rightarrow> (Redirect ''/index.html'', session_destroy st (sessionID req)))"

definition logout_route ::
  "js_error option \<Rightarrow> nat \<Rightarrow> session_store \<Rightarrow> string \<Rightarrow> response \<times> session_store" where
  "logout_route err now st sid = logout_handler err st (incoming now st sid)"

section \<open>Properties of the authorization logic\<close>

lemma endsWith_suffix: "endsWith s t = suffix t s"
proof
  assume "endsWith s t"
  then have "drop (length s - length t) s = t"
    by (simp add: endsWith_def)
  then show "suffix t s"
    by (metis suffix_drop)
next
  assume "suffix t s"
  then obtain zs where "s = zs @ t"
    by (auto simp: suffix_def)
  then show "endsWith s t"
    by (simp add: endsWith_def)
qed

lemma authorization_logic_cases:
  "authorization_logic e =
     (if (\<exists>l. e = l @ ''@stu.pathfinder-mm.org'') \<or> e = ''avagarimike11@gmail.com''
      then (''student'', True) else (''general'', False))"
  by (simp add: authorization_logic_def endsWith_suffix suffix_def)

lemma authorization_logic_two_if_cases:
  "authorization_logic_two_if e =
     (if (\<exists>l. e = l @ ''@stu.pathfinder-mm.org'') \<or> e = ''avagarimike11@gmail.com''
      then (''student'', True) else (''general'', False))"
  by (simp add: authorization_logic_two_if_def endsWith_suffix suffix_def)

text \<open>
  C1. The policy applied at login authorizes an email, with role "student", exactly
  when it ends with "@stu.pathfinder-mm.org" or equals "avagarimike11@gmail.com";
  every other email is rejected with the policy message. The tail match is exact and
  the allow-listed comparison is case-sensitive.
\<close>

theorem authorization_policy:
  "(snd (authorization_logic e) \<longleftrightarrow>
      (\<exists>l. e = l @ ''@stu.pathfinder-mm.org'') \<or> e = ''avagarimike11@gmail.com'')
   \<and> authorization_logic e =
       (if snd (authorization_logic e) then (''student'', True) else (''general'', False))
   \<and> verify \<lparr>emails = e # es, displayName = n\<rparr> =
       (if snd (authorization_logic e)
        then Done_user \<lparr>email = e, name = n, role = ''student''\<rparr>
        else Done_fail ''You are not a verified student of Pathfinder Institute Myanmar.'')
   \<and> verify_two_if \<lparr>emails = e # es, displayName = n\<rparr> =
       (if (\<exists>l. e = l @ ''@stu.pathfinder-mm.org'') \<or> e = ''avagarimike11@gmail.com''
        then Done_user \<lparr>email = e, name = n, role = ''student''\<rparr>
        else Done_fail ''You are not a verified student of Pathfinder Institute Myanmar.'')
   \<and> verify \<lparr>emails = [''a@stu.pathfinder-mm.org''], displayName = n\<rparr> =
       Done_user \<lparr>email = ''a@stu.pathfinder-mm.org'', name = n, role = ''student''\<rparr>
   \<and> verify \<lparr>emails = [''random@gmail.com''], displayName = n\<rparr> =
       Done_fail ''You are not a verified student of Pathfinder Institute Myanmar.''
   \<and> verify \<lparr>emails = [''Avagarimike11@gmail.com''], displayName = n\<rparr> =
       Done_fail ''You are not a verified student of Pathfinder Institute Myanmar.''
   \<and> verify \<lparr>emails = [''a@stu.pathfinder-mm.org.example.com''], displayName = n\<rparr> =
       Done_fail ''You are not a verified student of Pathfinder Institute Myanmar.''"
  by (simp add: verify_def verify_two_if_def authorization_logic_cases
      authorization_logic_two_if_cases Cons_eq_append_conv)

text \<open>
  C10. The two-if authorization logic of src/unnamed/part_001 and the single-condition
  logic of src/server.js and src/unnamed/part_000 agree on every email, and so do the
  two verify callbacks on every profile: same user, same role, same rejection message.
\<close>

theorem two_if_equivalence:
  "authorization_logic_two_if e = authorization_logic e \<and> verify_two_if p = verify p"
  by (simp add: verify_def verify_two_if_def authorization_logic_cases
      authorization_logic_two_if_cases split: list.split)

section \<open>The route guard\<close>

text \<open>
  C2. On a guarded route (/session-info, /dashboard) a request that is not
  authenticated is answered by the redirect to the public entry point /index.html,
  whatever the handler behind the guard is: the handler is not run. A request that is
  authenticated is answered by the handler.
\<close>

theorem route_guard:
  "(\<not> isAuthenticated req \<longrightarrow>
      ensureLoggedIn req next = Redirect ''/index.html''
    \<and> session_info_route req = Redirect ''/index.html''
    \<and> dashboard_route cwd req = Redirect ''/index.html''
    \<and> dashboard_route_part_001 req = Redirect ''/index.html'')
 \<and> (isAuthenticated req \<longrightarrow>
      ensureLoggedIn req next = next req
    \<and> session_info_route req = session_info_handler req
    \<and> dashboard_route cwd req = dashboard_handler cwd req
    \<and> dashboard_route_part_001 req = dashboard_handler_part_001 req)"
  by (simp add: ensureLoggedIn_def session_info_route_def dashboard_route_def
      dashboard_route_part_001_def)

theorem route_guard_witness:
  "\<not> isAuthenticated \<lparr>sessionID = ''s1'', user = None, flash = []\<rparr>
   \<and> session_info_route \<lparr>sessionID = ''s1'', user = None, flash = []\<rparr> =
       Redirect ''/index.html''
   \<and> dashboard_route ''/app'' \<lparr>sessionID = ''s1'', user = None, flash = []\<rparr> =
       Redirect ''/index.html''
   \<and> isAuthenticated \<lparr>sessionID = ''s2'',
         user = Some \<lparr>email = ''a@stu.pathfinder-mm.org'', name = ''A'', role = ''student''\<rparr>,
         flash = []\<rparr>
   \<and> session_info_route \<lparr>sessionID = ''s2'',
         user = Some \<lparr>email = ''a@stu.pathfinder-mm.org'', name = ''A'', role = ''student''\<rparr>,
         flash = []\<rparr> =
       Json [(''loggedIn'', JBool True), (''email'', JString ''a@stu.pathfinder-mm.org''),
             (''name'', JString ''A''), (''role'', JString ''student'')]
   \<and> dashboard_route ''/app'' \<lparr>sessionID = ''s2'',
         user = Some \<lparr>email = ''a@stu.pathfinder-mm.org'', name = ''A'', role = ''student''\<rparr>,
         flash = []\<rparr> = SendFile ''/app/public/dashboard.html''"
  using route_guard [of "\<lparr>sessionID = ''s1'', user = None, flash = []\<rparr>"
      session_info_handler "''/app''"]
    route_guard [of "\<lparr>sessionID = ''s2'',
         user = Some \<lparr>email = ''a@stu.pathfinder-mm.org'', name = ''A'', role = ''student''\<rparr>,
         flash = []\<rparr>" session_info_handler "''/app''"]
  by (simp add: isAuthenticated_def session_info_handler_def dashboard_handler_def
      dashboard_path_def)

section \<open>The session-info endpoint\<close>

lemma verify_Done_user:
  "verify p = Done_user u \<Longrightarrow>
     emails p \<noteq> [] \<and> snd (authorization_logic (hd (emails p)))
     \<and> u = \<lparr>email = hd (emails p), name = displayName p, role = ''student''\<rparr>"
  by (auto simp: verify_def authorization_logic_cases split: list.splits if_splits)

section \<open>The dashboard\<close>

text \<open>
  C9, as the claim states it, fails on src/server.js: the response to an authenticated
  GET /dashboard is the same file for the role "student" and for any other role.
\<close>

theorem dashboard_same_for_every_role:
  "dashboard_route ''/app'' \<lparr>sessionID = ''s'',
       user = Some \<lparr>email = ''a@stu.pathfinder-mm.org'', name = ''A'', role = ''student''\<rparr>,
       flash = []\<rparr> = SendFile ''/app/public/dashboard.html''
   \<and> dashboard_route ''/app'' \<lparr>sessionID = ''s'',
       user = Some \<lparr>email = ''a@stu.pathfinder-mm.org'', name = ''A'', role = ''general''\<rparr>,
       flash = []\<rparr> = SendFile ''/app/public/dashboard.html''"
  by (simp add: dashboard_route_def ensureLoggedIn_def isAuthenticated_def
      dashboard_handler_def dashboard_path_def)

text \<open>
  C9, amended. For an authenticated request, src/server.js (and src/unnamed/part_000)
  sends the file public/dashboard.html whatever the role is; src/unnamed/part_001
  sends a page built from the user, whose content block is the "student" block when
  the role is "student" and the generic block for every other role.
\<close>

theorem dashboard_by_revision:
  "user req = Some u \<Longrightarrow>
     dashboard_route cwd req = SendFile (dashboard_path cwd)
   \<and> dashboard_route_part_001 req =
       Send (dashboard_head u @ role_block (role u) @ dashboard_tail)
   \<and> role_block (role u) =
       (if role u = ''student''
        then ''<div class=\"card stu\"><h3>Student Docs Section</h3></div>''
        else ''<div class=\"card gen\"><h3>Enrollment Section</h3></div>'')
   \<and> (role_block (role u) = role_block ''student'') = (role u = ''student'')"
  by (simp add: dashboard_route_def dashboard_route_part_001_def ensureLoggedIn_def
      isAuthenticated_def dashboard_handler_def dashboard_handler_part_001_def role_block_def)

theorem dashboard_by_revision_witness:
  "dashboard_route ''/app'' \<lparr>sessionID = ''s'',
       user = Some \<lparr>email = ''a@stu.pathfinder-mm.org'', name = ''A'', role = ''student''\<rparr>,
       flash = []\<rparr> = SendFile ''/app/public/dashboard.html''
   \<and> dashboard_route_part_001 \<lparr>sessionID = ''s'',
       user = Some \<lparr>email = ''a@stu.pathfinder-mm.org'', name = ''A'', role = ''student''\<rparr>,
       flash = []\<rparr> =
     Send (dashboard_head \<lparr>email = ''a@stu.pathfinder-mm.org'', name = ''A'', role = ''student''\<rparr>
           @ ''<div class=\"card stu\"><h3>Student Docs Section</h3></div>'' @ dashboard_tail)
   \<and> dashboard_route_part_001 \<lparr>sessionID = ''s'',
       user = Some \<lparr>email = ''b@example.org'', name = ''B'', role = ''general''\<rparr>,
       flash = []\<rparr> =
     Send (dashboard_head \<lparr>email = ''b@example.org'', name = ''B'', role = ''general''\<rparr>
           @ ''<div class=\"card gen\"><h3>Enrollment Section</h3></div>'' @ dashboard_tail)"
  using dashboard_by_revision [of "\<lparr>sessionID = ''s'',
       user = Some \<lparr>email = ''a@stu.pathfinder-mm.org'', name = ''A'', role = ''student''\<rparr>,
       flash = []\<rparr>" "\<lparr>email = ''a@stu.pathfinder-mm.org'', name = ''A'', role = ''student''\<rparr>" "''/app''"]
   dashboard_by_revision [of "\<lparr>sessionID = ''s'',
       user = Some \<lparr>email = ''b@example.org'', name = ''B'', role = ''general''\<rparr>,
       flash = []\<rparr>" "\<lparr>email = ''b@example.org'', name = ''B'', role = ''general''\<rparr>" "''/app''"]
  by (simp add: dashboard_path_def)

section \<open>Logout\<close>

lemma incoming_sessionID: "sessionID (incoming now st sid) = sid"
  by (simp add: incoming_def split: option.split)

lemma incoming_absent: "st sid = None \<Longrightarrow> \<not> isAuthenticated (incoming now st sid)"
  by (simp add: incoming_def store_get_def isAuthenticated_def)

lemma incoming_expired:
  "st sid = Some d \<Longrightarrow> expiresAt d \<le> now \<Longrightarrow> \<not> isAuthenticated (incoming now st sid)"
  by (simp add: incoming_def store_get_def isAuthenticated_def)

text \<open>
  C6, as the claim states it, fails: when \<open>req.logout\<close> reports an error, the handler
  passes it to \<open>next(err)\<close>, also for a session ID that has no record.
\<close>

theorem logout_error_is_surfaced:
  "fst (logout_route (Some LogoutError) 0 Map.empty ''s1'') = Next_err LogoutError
   \<and> fst (logout_route (Some LogoutError) 0 Map.empty ''s1'') \<noteq> Redirect ''/index.html''"
  by (simp add: logout_route_def logout_handler_def)

text \<open>
  C6, amended. When \<open>req.logout\<close> reports no error, logout deletes the record of the
  session ID and redirects to /index.html; the session ID is then not authenticated
  at any later time, and a second logout on it gives the same redirect and leaves the
  store as it is. When \<open>req.logout\<close> reports an error, the handler hands it to
  \<open>next(err)\<close> and deletes nothing.
\<close>

theorem logout_idempotent:
  "logout_handler None st req = (Redirect ''/index.html'', st(sessionID req := None))
   \<and> logout_route None t st sid = (Redirect ''/index.html'', st(sid := None))
   \<and> \<not> isAuthenticated (incoming now (snd (logout_route None t st sid)) sid)
   \<and> logout_route None t' (snd (logout_route None t st sid)) sid =
       (Redirect ''/index.html'', snd (logout_route None t st sid))
   \<and> logout_handler (Some e) st req = (Next_err e, st)"
  by (simp add: logout_route_def logout_handler_def session_destroy_def incoming_sessionID
      incoming_absent)

section \<open>The login callback and the failure page\<close>

lemma encode_rejection:
  "encodeURIComponent ''You are not a verified student of Pathfinder Institute Myanmar.'' =
     ''You%20are%20not%20a%20verified%20student%20of%20Pathfinder%20Institute%20Myanmar.''"
  by (simp add: encodeURIComponent_def uriUnreserved_def percentEncode_def hexDigit_def)

lemma encode_login_failed:
  "encodeURIComponent ''Login failed.'' = ''Login%20failed.''"
  by (simp add: encodeURIComponent_def uriUnreserved_def percentEncode_def hexDigit_def)

lemma encode_login_failed_no_stop:
  "encodeURIComponent ''Login failed'' = ''Login%20failed''"
  by (simp add: encodeURIComponent_def uriUnreserved_def percentEncode_def hexDigit_def)

lemma auth_failure_handler_cases:
  "auth_failure_handler req =
     Redirect (''/index.html?authError='' @
       encodeURIComponent (case flash req of [] \<Rightarrow> ''Login failed.'' | m # _ \<Rightarrow> m))"
  by (simp add: auth_failure_handler_def Let_def split: list.split)

lemma verify_Done_fail:
  "verify p = Done_fail m \<Longrightarrow>
     m = ''You are not a verified student of Pathfinder Institute Myanmar.''"
  by (auto simp: verify_def split: list.splits if_splits prod.splits)
lemma store_get_live:
  "st sid = Some d \<Longrightarrow> now < expiresAt d \<Longrightarrow> store_get now st sid = Some d"
  by (simp add: store_get_def)

lemma verify_rejects:
  "\<not> snd (authorization_logic e) \<Longrightarrow>
     verify \<lparr>emails = e # es, displayName = n\<rparr> =
       Done_fail ''You are not a verified student of Pathfinder Institute Myanmar.''"
  by (cases "authorization_logic e") (simp add: verify_def)

lemma login_callback_fail:
  "verify p = Done_fail m \<Longrightarrow>
     login_callback now st sid p =
       (Redirect ''/auth/failure'',
        st(sid \<mapsto> touch now ((current_session now st sid)
              \<lparr>flash_error := flash_error (current_session now st sid) @ [m]\<rparr>)))"
  by (simp add: login_callback_def Let_def)

lemma touch_passport_user: "passport_user (touch now d) = passport_user d"
  by (simp add: touch_def)

lemma current_session_user:
  "passport_user (current_session now st sid) = Some u \<Longrightarrow>
     \<exists>d. st sid = Some d \<and> passport_user d = Some u"
  by (auto simp: current_session_def store_get_def split: option.splits if_splits)

lemma current_session_anonymous:
  "\<not> isAuthenticated (incoming now st sid) \<Longrightarrow>
     passport_user (current_session now st sid) = None"
  by (auto simp: current_session_def incoming_def isAuthenticated_def split: option.splits)

lemma incoming_anonymous:
  "st sid = Some d \<Longrightarrow> passport_user d = None \<Longrightarrow> \<not> isAuthenticated (incoming now st sid)"
  by (simp add: incoming_def store_get_def isAuthenticated_def)

lemma incoming_flash: "flash (incoming now st sid) = flash_error (current_session now st sid)"
  by (simp add: incoming_def current_session_def split: option.split)

lemma failure_page_after_rejection:
  assumes "verify p = Done_fail m" and "flash (incoming now st sid) = []"
    and "now' < now + cookie_maxAge"
  shows "fst (auth_failure_route now' (snd (login_callback now st sid p)) sid) =
           Redirect (''/index.html?authError='' @ encodeURIComponent m)"
proof -
  let ?c = "current_session now st sid"
  let ?d = "touch now (?c\<lparr>flash_error := flash_error ?c @ [m]\<rparr>)"
  have "snd (login_callback now st sid p) sid = Some ?d"
    by (simp add: login_callback_fail [OF assms(1)])
  moreover have "now' < expiresAt ?d"
    using assms(3) by (simp add: touch_def rolling_def)
  ultimately have "store_get now' (snd (login_callback now st sid p)) sid = Some ?d"
    by (rule store_get_live)
  moreover have "flash_error ?d = [m]"
    using assms(2) by (simp add: incoming_flash touch_def)
  ultimately have "flash (incoming now' (snd (login_callback now st sid p)) sid) = [m]"
    by (simp add: incoming_def)
  then show ?thesis
    by (simp add: auth_failure_route_def auth_failure_handler_cases)
qed

text \<open>
  C5. A profile whose first email the policy does not authorize is rejected: the
  verify callback fails with the policy message, the login callback redirects to
  /auth/failure, no record of the store gains a user (a record that carries a user
  afterwards carried the same user before), a client that was not authenticated
  before is not authenticated afterwards, and the failure page, reading that message,
  redirects to /index.html with the message URL-encoded in \<open>authError\<close>. The
  message reaches the failure page as a flash message kept in the visitor's session,
  which carries no user: a session record in the sense of the data model, one with a
  user, is not created.
\<close>

theorem unauthorized_login_rejected:
  assumes "\<not> snd (authorization_logic e)"
  shows "verify \<lparr>emails = e # es, displayName = n\<rparr> =
           Done_fail ''You are not a verified student of Pathfinder Institute Myanmar.''
     \<and> fst (login_callback now st sid \<lparr>emails = e # es, displayName = n\<rparr>) =
           Redirect ''/auth/failure''
     \<and> (\<forall>s d' u. snd (login_callback now st sid \<lparr>emails = e # es, displayName = n\<rparr>) s = Some d'
            \<and> passport_user d' = Some u
          \<longrightarrow> (\<exists>d. st s = Some d \<and> passport_user d = Some u))
     \<and> (\<not> isAuthenticated (incoming now st sid) \<longrightarrow>
          \<not> isAuthenticated (incoming now'
              (snd (login_callback now st sid \<lparr>emails = e # es, displayName = n\<rparr>)) sid))
     \<and> (flash req = [''You are not a verified student of Pathfinder Institute Myanmar.''] \<longrightarrow>
          auth_failure_handler req = Redirect
            ''/index.html?authError=You%20are%20not%20a%20verified%20student%20of%20Pathfinder%20Institute%20Myanmar.'')
     \<and> (flash (incoming now st sid) = [] \<and> now' < now + cookie_maxAge \<longrightarrow>
          fst (auth_failure_route now'
              (snd (login_callback now st sid \<lparr>emails = e # es, displayName = n\<rparr>)) sid) =
          Redirect
            ''/index.html?authError=You%20are%20not%20a%20verified%20student%20of%20Pathfinder%20Institute%20Myanmar.'')"
proof -
  let ?p = "\<lparr>emails = e # es, displayName = n\<rparr>"
  let ?m = "''You are not a verified student of Pathfinder Institute Myanmar.''"
  let ?c = "current_session now st sid"
  have v: "verify ?p = Done_fail ?m"
    using assms by (rule verify_rejects)
  have l: "login_callback now st sid ?p =
      (Redirect ''/auth/failure'',
       st(sid \<mapsto> touch now (?c\<lparr>flash_error := flash_error ?c @ [?m]\<rparr>)))"
    using v by (rule login_callback_fail)
  have r: "fst (login_callback now st sid ?p) = Redirect ''/auth/failure''"
    by (simp add: l)
  have u: "\<forall>s d' u. snd (login_callback now st sid ?p) s = Some d' \<and> passport_user d' = Some u
          \<longrightarrow> (\<exists>d. st s = Some d \<and> passport_user d = Some u)"
    using current_session_user [of now st sid]
    by (auto simp: l touch_passport_user split: if_splits)
  have a: "\<not> isAuthenticated (incoming now st sid) \<longrightarrow>
          \<not> isAuthenticated (incoming now' (snd (login_callback now st sid ?p)) sid)"
  proof
    assume "\<not> isAuthenticated (incoming now st sid)"
    then have "passport_user ?c = None"
      by (rule current_session_anonymous)
    then show "\<not> isAuthenticated (incoming now' (snd (login_callback now st sid ?p)) sid)"
      by (intro incoming_anonymous [where d = "touch now (?c\<lparr>flash_error := flash_error ?c @ [?m]\<rparr>)"])
        (simp_all add: l touch_passport_user)
  qed
  have f: "flash req = [?m] \<longrightarrow> auth_failure_handler req = Redirect
            ''/index.html?authError=You%20are%20not%20a%20verified%20student%20of%20Pathfinder%20Institute%20Myanmar.''"
    by (simp add: auth_failure_handler_cases encode_rejection)
  have g: "flash (incoming now st sid) = [] \<and> now' < now + cookie_maxAge \<longrightarrow>
          fst (auth_failure_route now' (snd (login_callback now st sid ?p)) sid) =
          Redirect
            ''/index.html?authError=You%20are%20not%20a%20verified%20student%20of%20Pathfinder%20Institute%20Myanmar.''"
    using failure_page_after_rejection [OF v, of now st sid now']
    by (simp add: encode_rejection)
  from v r u a f g show ?thesis
    by blast
qed


theorem unauthorized_login_rejected_witness:
  "\<not> snd (authorization_logic ''random@gmail.com'')
   \<and> verify \<lparr>emails = [''random@gmail.com''], displayName = ''R''\<rparr> =
       Done_fail ''You are not a verified student of Pathfinder Institute Myanmar.''
   \<and> fst (login_callback 0 Map.empty ''s1''
         \<lparr>emails = [''random@gmail.com''], displayName = ''R''\<rparr>) = Redirect ''/auth/failure''
   \<and> \<not> isAuthenticated (incoming 1
         (snd (login_callback 0 Map.empty ''s1''
            \<lparr>emails = [''random@gmail.com''], displayName = ''R''\<rparr>)) ''s1'')
   \<and> auth_failure_handler \<lparr>sessionID = ''s1'', user = None,
         flash = [''You are not a verified student of Pathfinder Institute Myanmar.'']\<rparr> =
       Redirect
         ''/index.html?authError=You%20are%20not%20a%20verified%20student%20of%20Pathfinder%20Institute%20Myanmar.''
   \<and> fst (auth_failure_route 1
         (snd (login_callback 0 Map.empty ''s1''
            \<lparr>emails = [''random@gmail.com''], displayName = ''R''\<rparr>)) ''s1'') =
       Redirect
         ''/index.html?authError=You%20are%20not%20a%20verified%20student%20of%20Pathfinder%20Institute%20Myanmar.''"
proof -
  have h: "\<not> snd (authorization_logic ''random@gmail.com'')"
    by (simp add: authorization_logic_def endsWith_def)
  have a: "\<not> isAuthenticated (incoming 0 Map.empty ''s1'')"
    by (simp add: incoming_def store_get_def isAuthenticated_def)
  have d: "flash \<lparr>sessionID = ''s1'', user = None,
          flash = [''You are not a verified student of Pathfinder Institute Myanmar.'']\<rparr> =
        [''You are not a verified student of Pathfinder Institute Myanmar.'']"
    by simp
  note t = unauthorized_login_rejected [OF h, of "[]" "''R''" 0 Map.empty "''s1''" 1
      "\<lparr>sessionID = ''s1'', user = None,
          flash = [''You are not a verified student of Pathfinder Institute Myanmar.'']\<rparr>"]
  have e: "flash (incoming 0 Map.empty ''s1'') = [] \<and> (1::nat) < 0 + cookie_maxAge"
    by (simp add: incoming_def store_get_def cookie_maxAge_def)
  from t h a d e show ?thesis
    by blast
qed

text \<open>
  C8, as the claim states it, fails twice: a profile without an email makes the verify
  callback call \<open>done(err, null)\<close>, which ends in \<open>next(err)\<close> and not in a redirect
  to the failure page; and the generic message of the failure page is
  "Login failed." with a full stop, so the redirect is not the one that carries
  "Login failed".
\<close>

theorem login_failure_page_counterexample:
  "fst (login_callback 0 Map.empty ''s1'' \<lparr>emails = [], displayName = ''A''\<rparr>) =
     Next_err TypeError
   \<and> auth_failure_handler \<lparr>sessionID = ''s1'', user = None, flash = []\<rparr> =
       Redirect ''/index.html?authError=Login%20failed.''
   \<and> auth_failure_handler \<lparr>sessionID = ''s1'', user = None, flash = []\<rparr> \<noteq>
       Redirect (''/index.html?authError='' @ encodeURIComponent ''Login failed'')"
  by (simp add: login_callback_def verify_def auth_failure_handler_cases encode_login_failed
      encode_login_failed_no_stop)

text \<open>
  C8, amended. At the login callback, an accepted user is redirected to /dashboard; a
  rejection by the policy is redirected to /auth/failure, with the policy message; an
  exception of the verify callback is handed to \<open>next(err)\<close>. The failure page
  redirects to /index.html with \<open>authError\<close> set to the URL-encoded first flash
  message, or to the URL-encoded "Login failed." when there is none.
\<close>

theorem login_callback_outcomes:
  "(verify p = Done_user u \<longrightarrow>
      fst (login_callback now st sid p) = Redirect ''/dashboard'')
   \<and> (verify p = Done_fail m \<longrightarrow>
      fst (login_callback now st sid p) = Redirect ''/auth/failure''
      \<and> m = ''You are not a verified student of Pathfinder Institute Myanmar.'')
   \<and> (verify p = Done_err err \<longrightarrow> fst (login_callback now st sid p) = Next_err err)
   \<and> auth_failure_handler req =
       Redirect (''/index.html?authError='' @
         encodeURIComponent (case flash req of [] \<Rightarrow> ''Login failed.'' | m # _ \<Rightarrow> m))
   \<and> (flash req = [''You are not a verified student of Pathfinder Institute Myanmar.''] \<longrightarrow>
        auth_failure_handler req = Redirect
          ''/index.html?authError=You%20are%20not%20a%20verified%20student%20of%20Pathfinder%20Institute%20Myanmar.'')
   \<and> (flash req = [] \<longrightarrow>
        auth_failure_handler req = Redirect ''/index.html?authError=Login%20failed.'')"
  using verify_Done_fail [of p m]
  by (simp add: login_callback_def callback_handler_def auth_failure_handler_cases
      encode_rejection encode_login_failed Let_def)

theorem login_callback_outcomes_witness:
  "fst (login_callback 0 Map.empty ''s1''
      \<lparr>emails = [''a@stu.pathfinder-mm.org''], displayName = ''A''\<rparr>) = Redirect ''/dashboard''
   \<and> fst (login_callback 0 Map.empty ''s1''
      \<lparr>emails = [''random@gmail.com''], displayName = ''R''\<rparr>) = Redirect ''/auth/failure''
   \<and> fst (login_callback 0 Map.empty ''s1''
      \<lparr>emails = [], displayName = ''N''\<rparr>) = Next_err TypeError
   \<and> auth_failure_handler \<lparr>sessionID = ''s1'', user = None,
        flash = [''You are not a verified student of Pathfinder Institute Myanmar.'']\<rparr> =
      Redirect
        ''/index.html?authError=You%20are%20not%20a%20verified%20student%20of%20Pathfinder%20Institute%20Myanmar.''
   \<and> auth_failure_handler \<lparr>sessionID = ''s1'', user = None, flash = []\<rparr> =
      Redirect ''/index.html?authError=Login%20failed.''"
proof -
  have a: "verify \<lparr>emails = [''a@stu.pathfinder-mm.org''], displayName = ''A''\<rparr> =
      Done_user \<lparr>email = ''a@stu.pathfinder-mm.org'', name = ''A'', role = ''student''\<rparr>"
    by (simp add: verify_def authorization_logic_def endsWith_def)
  have b: "verify \<lparr>emails = [''random@gmail.com''], displayName = ''R''\<rparr> =
      Done_fail ''You are not a verified student of Pathfinder Institute Myanmar.''"
    by (simp add: verify_def authorization_logic_def endsWith_def)
  have c: "verify \<lparr>emails = [], displayName = ''N''\<rparr> = Done_err TypeError"
    by (simp add: verify_def)
  have d: "flash \<lparr>sessionID = ''s1'', user = None,
          flash = [''You are not a verified student of Pathfinder Institute Myanmar.'']\<rparr> =
        [''You are not a verified student of Pathfinder Institute Myanmar.'']"
    by simp
  have e: "flash \<lparr>sessionID = ''s1'', user = None, flash = []\<rparr> = []"
    by simp
  note t1 = login_callback_outcomes [of "\<lparr>emails = [''a@stu.pathfinder-mm.org''], displayName = ''A''\<rparr>"
        "\<lparr>email = ''a@stu.pathfinder-mm.org'', name = ''A'', role = ''student''\<rparr>" 0 Map.empty "''s1''"
        "''x''" TypeError
        "\<lparr>sessionID = ''s1'', user = None,
          flash = [''You are not a verified student of Pathfinder Institute Myanmar.'']\<rparr>"]
  note t2 = login_callback_outcomes [of "\<lparr>emails = [''random@gmail.com''], displayName = ''R''\<rparr>"
        "\<lparr>email = ''a@stu.pathfinder-mm.org'', name = ''A'', role = ''student''\<rparr>" 0 Map.empty "''s1''"
        "''You are not a verified student of Pathfinder Institute Myanmar.''" TypeError
        "\<lparr>sessionID = ''s1'', user = None, flash = []\<rparr>"]
  note t3 = login_callback_outcomes [of "\<lparr>emails = [], displayName = ''N''\<rparr>"
        "\<lparr>email = ''a@stu.pathfinder-mm.org'', name = ''A'', role = ''student''\<rparr>" 0 Map.empty "''s1''"
        "''x''" TypeError
        "\<lparr>sessionID = ''s1'', user = None, flash = []\<rparr>"]
  from t1 a have g1: "fst (login_callback 0 Map.empty ''s1''
      \<lparr>emails = [''a@stu.pathfinder-mm.org''], displayName = ''A''\<rparr>) = Redirect ''/dashboard''"
    by blast
  from t2 b have g2: "fst (login_callback 0 Map.empty ''s1''
      \<lparr>emails = [''random@gmail.com''], displayName = ''R''\<rparr>) = Redirect ''/auth/failure''"
    by blast
  from t3 c have g3: "fst (login_callback 0 Map.empty ''s1''
      \<lparr>emails = [], displayName = ''N''\<rparr>) = Next_err TypeError"
    by blast
  from t1 d have g4: "auth_failure_handler \<lparr>sessionID = ''s1'', user = None,
        flash = [''You are not a verified student of Pathfinder Institute Myanmar.'']\<rparr> =
      Redirect
        ''/index.html?authError=You%20are%20not%20a%20verified%20student%20of%20Pathfinder%20Institute%20Myanmar.''"
    by blast
  from t2 e have g5: "auth_failure_handler \<lparr>sessionID = ''s1'', user = None, flash = []\<rparr> =
      Redirect ''/index.html?authError=Login%20failed.''"
    by blast
  from g1 g2 g3 g4 g5 show ?thesis
    by blast
qed

section \<open>Rolling expiry\<close>

lemma refresh_live:
  "store_get now st sid = Some d \<Longrightarrow>
     refresh now st sid sid = Some (d\<lparr>expiresAt := now + cookie_maxAge\<rparr>)"
  by (simp add: refresh_def touch_def rolling_def)

lemma login_callback_success:
  "verify p = Done_user u \<Longrightarrow>
     login_callback now st sid p =
       (Redirect ''/dashboard'',
        st(sid \<mapsto> touch now ((current_session now st sid)
              \<lparr>passport_user := Some (serializeUser u)\<rparr>)))"
  by (simp add: login_callback_def callback_handler_def Let_def)

lemma login_expiry:
  assumes "verify p = Done_user u"
  shows "\<exists>d. snd (login_callback T st sid p) sid = Some d
           \<and> passport_user d = Some u \<and> expiresAt d = T + cookie_maxAge"
  by (simp add: login_callback_success [OF assms] touch_def rolling_def serializeUser_def)

lemma login_then_guarded:
  assumes "verify p = Done_user u" and "t < T + cookie_maxAge"
  shows "\<exists>d. snd (guarded_request t (snd (login_callback T st sid p)) sid handler) sid = Some d
           \<and> passport_user d = Some u \<and> expiresAt d = t + cookie_maxAge"
proof -
  obtain d1 where 1: "snd (login_callback T st sid p) sid = Some d1"
    and 2: "passport_user d1 = Some u" and 3: "expiresAt d1 = T + cookie_maxAge"
    using login_expiry [OF assms(1)] by blast
  have "store_get t (snd (login_callback T st sid p)) sid = Some d1"
    using 1 by (rule store_get_live) (simp add: 3 assms(2))
  then have "refresh t (snd (login_callback T st sid p)) sid sid =
      Some (d1\<lparr>expiresAt := t + cookie_maxAge\<rparr>)"
    by (rule refresh_live)
  then show ?thesis
    by (simp add: guarded_request_def 2)
qed

text \<open>
  C3. The window is 14 days (the cookie's \<open>maxAge\<close> in milliseconds, equal to the
  store's \<open>ttl\<close> in seconds) and rolling is on. A guarded request on a live session
  that carries a user runs the handler and leaves the record with expiry now + 14
  days; of two such requests in a row the later one never leaves an earlier expiry;
  and a session created by a login at time \<open>T\<close> and used on a guarded route at
  \<open>T\<close> + 13 days ends with expiry (\<open>T\<close> + 13 days) + 14 days in the store.
\<close>

theorem rolling_ttl:
  "cookie_maxAge = 14 * (24 * 60 * 60 * 1000)
   \<and> cookie_maxAge = store_ttl * 1000
   \<and> rolling
   \<and> (store_get now st sid = Some d \<and> passport_user d = Some u \<longrightarrow>
        fst (guarded_request now st sid handler) = handler (incoming now st sid)
        \<and> snd (guarded_request now st sid handler) sid =
            Some (d\<lparr>expiresAt := now + 14 * (24 * 60 * 60 * 1000)\<rparr>))
   \<and> (store_get t1 st sid = Some d \<and> passport_user d = Some u
        \<and> t1 \<le> t2 \<and> t2 < t1 + 14 * (24 * 60 * 60 * 1000) \<longrightarrow>
        (let st1 = snd (guarded_request t1 st sid handler);
             st2 = snd (guarded_request t2 st1 sid handler)
         in map_option expiresAt (st1 sid) = Some (t1 + 14 * (24 * 60 * 60 * 1000))
            \<and> map_option expiresAt (st2 sid) = Some (t2 + 14 * (24 * 60 * 60 * 1000))
            \<and> (\<exists>d1 d2. st1 sid = Some d1 \<and> st2 sid = Some d2 \<and> expiresAt d1 \<le> expiresAt d2)))
   \<and> (verify p = Done_user u \<longrightarrow>
        (let st1 = snd (login_callback T st sid p);
             st2 = snd (guarded_request (T + 13 * (24 * 60 * 60 * 1000)) st1 sid handler)
         in map_option expiresAt (st1 sid) = Some (T + 14 * (24 * 60 * 60 * 1000))
            \<and> map_option passport_user (st2 sid) = Some (Some u)
            \<and> map_option expiresAt (st2 sid) =
                Some ((T + 13 * (24 * 60 * 60 * 1000)) + 14 * (24 * 60 * 60 * 1000))))"
proof -
  have c: "cookie_maxAge = 14 * (24 * 60 * 60 * 1000)"
    by (simp add: cookie_maxAge_def)
  have s: "cookie_maxAge = store_ttl * 1000"
    by (simp add: cookie_maxAge_def store_ttl_def)
  have r: rolling
    by (simp add: rolling_def)
  have g: "store_get now st sid = Some d \<and> passport_user d = Some u \<longrightarrow>
        fst (guarded_request now st sid handler) = handler (incoming now st sid)
        \<and> snd (guarded_request now st sid handler) sid =
            Some (d\<lparr>expiresAt := now + 14 * (24 * 60 * 60 * 1000)\<rparr>)"
    for now st d
    by (simp add: guarded_request_def ensureLoggedIn_def isAuthenticated_def incoming_def
        refresh_live cookie_maxAge_def)
  have two: "store_get t1 st sid = Some d \<and> passport_user d = Some u
        \<and> t1 \<le> t2 \<and> t2 < t1 + 14 * (24 * 60 * 60 * 1000) \<longrightarrow>
        (let st1 = snd (guarded_request t1 st sid handler);
             st2 = snd (guarded_request t2 st1 sid handler)
         in map_option expiresAt (st1 sid) = Some (t1 + 14 * (24 * 60 * 60 * 1000))
            \<and> map_option expiresAt (st2 sid) = Some (t2 + 14 * (24 * 60 * 60 * 1000))
            \<and> (\<exists>d1 d2. st1 sid = Some d1 \<and> st2 sid = Some d2 \<and> expiresAt d1 \<le> expiresAt d2))"
  proof
    assume h: "store_get t1 st sid = Some d \<and> passport_user d = Some u
        \<and> t1 \<le> t2 \<and> t2 < t1 + 14 * (24 * 60 * 60 * 1000)"
    let ?d1 = "d\<lparr>expiresAt := t1 + cookie_maxAge\<rparr>"
    let ?st1 = "refresh t1 st sid"
    have 1: "?st1 sid = Some ?d1"
      using h by (simp add: refresh_live)
    have "store_get t2 ?st1 sid = Some ?d1"
      using 1 h by (intro store_get_live) (simp_all add: c)
    then have 2: "refresh t2 ?st1 sid sid = Some (?d1\<lparr>expiresAt := t2 + cookie_maxAge\<rparr>)"
      by (rule refresh_live)
    show "let st1 = snd (guarded_request t1 st sid handler);
             st2 = snd (guarded_request t2 st1 sid handler)
         in map_option expiresAt (st1 sid) = Some (t1 + 14 * (24 * 60 * 60 * 1000))
            \<and> map_option expiresAt (st2 sid) = Some (t2 + 14 * (24 * 60 * 60 * 1000))
            \<and> (\<exists>d1 d2. st1 sid = Some d1 \<and> st2 sid = Some d2 \<and> expiresAt d1 \<le> expiresAt d2)"
      using h by (simp add: guarded_request_def 1 2 c)
  qed
  have login: "verify p = Done_user u \<longrightarrow>
        (let st1 = snd (login_callback T st sid p);
             st2 = snd (guarded_request (T + 13 * (24 * 60 * 60 * 1000)) st1 sid handler)
         in map_option expiresAt (st1 sid) = Some (T + 14 * (24 * 60 * 60 * 1000))
            \<and> map_option passport_user (st2 sid) = Some (Some u)
            \<and> map_option expiresAt (st2 sid) =
                Some ((T + 13 * (24 * 60 * 60 * 1000)) + 14 * (24 * 60 * 60 * 1000)))"
  proof
    assume v: "verify p = Done_user u"
    define t where "t = T + 13 * (24 * 60 * 60 * 1000)"
    have "t < T + cookie_maxAge"
      by (simp add: t_def cookie_maxAge_def)
    from login_then_guarded [OF v this, of st sid handler] login_expiry [OF v, of T st sid]
    have "let st1 = snd (login_callback T st sid p);
             st2 = snd (guarded_request t st1 sid handler)
         in map_option expiresAt (st1 sid) = Some (T + cookie_maxAge)
            \<and> map_option passport_user (st2 sid) = Some (Some u)
            \<and> map_option expiresAt (st2 sid) = Some (t + cookie_maxAge)"
      by (auto simp: Let_def)
    then show "let st1 = snd (login_callback T st sid p);
             st2 = snd (guarded_request (T + 13 * (24 * 60 * 60 * 1000)) st1 sid handler)
         in map_option expiresAt (st1 sid) = Some (T + 14 * (24 * 60 * 60 * 1000))
            \<and> map_option passport_user (st2 sid) = Some (Some u)
            \<and> map_option expiresAt (st2 sid) =
                Some ((T + 13 * (24 * 60 * 60 * 1000)) + 14 * (24 * 60 * 60 * 1000))"
      unfolding t_def c .
  qed
  from c s r g two login show ?thesis
    by blast
qed

theorem rolling_ttl_witness:
  "store_get 50
      [''s1'' \<mapsto> \<lparr>passport_user = Some \<lparr>email = ''a@stu.pathfinder-mm.org'', name = ''A'', role = ''student''\<rparr>,
                 flash_error = [], expiresAt = 100\<rparr>] ''s1'' =
     Some \<lparr>passport_user = Some \<lparr>email = ''a@stu.pathfinder-mm.org'', name = ''A'', role = ''student''\<rparr>,
           flash_error = [], expiresAt = 100\<rparr>
   \<and> snd (guarded_request 50
      [''s1'' \<mapsto> \<lparr>passport_user = Some \<lparr>email = ''a@stu.pathfinder-mm.org'', name = ''A'', role = ''student''\<rparr>,
                 flash_error = [], expiresAt = 100\<rparr>] ''s1'' session_info_handler) ''s1'' =
     Some \<lparr>passport_user = Some \<lparr>email = ''a@stu.pathfinder-mm.org'', name = ''A'', role = ''student''\<rparr>,
           flash_error = [], expiresAt = 1209600050\<rparr>
   \<and> verify \<lparr>emails = [''a@stu.pathfinder-mm.org''], displayName = ''A''\<rparr> =
       Done_user \<lparr>email = ''a@stu.pathfinder-mm.org'', name = ''A'', role = ''student''\<rparr>
   \<and> map_option expiresAt
        (snd (login_callback 1000 Map.empty ''s1''
           \<lparr>emails = [''a@stu.pathfinder-mm.org''], displayName = ''A''\<rparr>) ''s1'') =
       Some 1209601000
   \<and> map_option expiresAt
        (snd (guarded_request 1123201000
           (snd (login_callback 1000 Map.empty ''s1''
              \<lparr>emails = [''a@stu.pathfinder-mm.org''], displayName = ''A''\<rparr>))
           ''s1'' session_info_handler) ''s1'') =
       Some 2332801000"
proof -
  let ?u = "\<lparr>email = ''a@stu.pathfinder-mm.org'', name = ''A'', role = ''student''\<rparr>"
  let ?d = "\<lparr>passport_user = Some ?u, flash_error = [], expiresAt = 100\<rparr>"
  let ?p = "\<lparr>emails = [''a@stu.pathfinder-mm.org''], displayName = ''A''\<rparr>"
  have g: "store_get 50 [''s1'' \<mapsto> ?d] ''s1'' = Some ?d"
    by (simp add: store_get_def)
  have pu: "passport_user ?d = Some ?u"
    by simp
  have v: "verify ?p = Done_user ?u"
    by (simp add: verify_def authorization_logic_def endsWith_def)
  note t1 = rolling_ttl [where now = 50 and st = "[''s1'' \<mapsto> ?d]" and sid = "''s1''"
      and d = ?d and u = ?u and handler = session_info_handler and p = ?p and T = 1000]
  note t2 = rolling_ttl [where st = Map.empty and sid = "''s1''"
      and u = ?u and handler = session_info_handler and p = ?p and T = 1000]
  from t1 g pu have a: "snd (guarded_request 50 [''s1'' \<mapsto> ?d] ''s1'' session_info_handler) ''s1'' =
     Some (?d\<lparr>expiresAt := 50 + 14 * (24 * 60 * 60 * 1000)\<rparr>)"
    by blast
  from t2 v have b: "let st1 = snd (login_callback 1000 Map.empty ''s1'' ?p);
             st2 = snd (guarded_request (1000 + 13 * (24 * 60 * 60 * 1000)) st1 ''s1'' session_info_handler)
         in map_option expiresAt (st1 ''s1'') = Some (1000 + 14 * (24 * 60 * 60 * 1000))
            \<and> map_option passport_user (st2 ''s1'') = Some (Some ?u)
            \<and> map_option expiresAt (st2 ''s1'') =
                Some ((1000 + 13 * (24 * 60 * 60 * 1000)) + 14 * (24 * 60 * 60 * 1000))"
    by blast
  from b have c: "map_option expiresAt (snd (login_callback 1000 Map.empty ''s1'' ?p) ''s1'') =
       Some 1209601000
   \<and> map_option expiresAt
        (snd (guarded_request 1123201000
           (snd (login_callback 1000 Map.empty ''s1'' ?p)) ''s1'' session_info_handler) ''s1'') =
       Some 2332801000"
    by (simp add: Let_def)
  from a have a': "snd (guarded_request 50 [''s1'' \<mapsto> ?d] ''s1'' session_info_handler) ''s1'' =
     Some \<lparr>passport_user = Some ?u, flash_error = [], expiresAt = 1209600050\<rparr>"
    by simp
  from g a' v c show ?thesis
    by blast
qed

section \<open>The session-info endpoint after a login\<close>

lemma session_info_of_record:
  assumes "store_get t st sid = Some d" and "passport_user d = Some (serializeUser u)"
  shows "session_info_route (incoming t st sid) =
           Json [(''loggedIn'', JBool True), (''email'', JString (email u)),
                 (''name'', JString (name u)), (''role'', JString (role u))]"
  using assms
  by (simp add: session_info_route_def ensureLoggedIn_def isAuthenticated_def incoming_def
      session_info_handler_def serializeUser_def deserializeUser_def)

lemma session_info_of_live_record:
  assumes "st sid = Some d" and "passport_user d = Some u" and "t < expiresAt d"
  shows "session_info_route (incoming t st sid) =
           Json [(''loggedIn'', JBool True), (''email'', JString (email u)),
                 (''name'', JString (name u)), (''role'', JString (role u))]"
proof -
  have "store_get t st sid = Some d"
    using assms(1,3) by (rule store_get_live)
  moreover have "passport_user d = Some (serializeUser u)"
    using assms(2) by (simp add: serializeUser_def)
  ultimately show ?thesis
    by (rule session_info_of_record)
qed

text \<open>
  C4. When the verify callback accepted the profile \<open>p\<close> with the user \<open>u\<close> at a
  login, /session-info on the session that login created answers exactly
  \<open>{loggedIn: true, email, name, role}\<close> with the fields of \<open>u\<close> (the first email of
  the profile, its display name and the role "student"): on a request within the
  window after the login, on a request after an earlier guarded request has renewed
  the session, and on any live record that carries the user serialized at the login,
  which a guarded request leaves with the same user.
\<close>

theorem session_info_matches_login:
  assumes "verify p = Done_user u"
  shows "email u = hd (emails p) \<and> name u = displayName p \<and> role u = ''student''
   \<and> (t1 < now + cookie_maxAge \<longrightarrow>
        session_info_route (incoming t1 (snd (login_callback now st sid p)) sid) =
          Json [(''loggedIn'', JBool True), (''email'', JString (email u)),
                (''name'', JString (name u)), (''role'', JString (role u))]
        \<and> fst (guarded_request t1 (snd (login_callback now st sid p)) sid session_info_handler) =
          Json [(''loggedIn'', JBool True), (''email'', JString (email u)),
                (''name'', JString (name u)), (''role'', JString (role u))])
   \<and> (t1 < now + cookie_maxAge \<and> t2 < t1 + cookie_maxAge \<longrightarrow>
        session_info_route
          (incoming t2 (snd (guarded_request t1 (snd (login_callback now st sid p)) sid handler))
             sid) =
          Json [(''loggedIn'', JBool True), (''email'', JString (email u)),
                (''name'', JString (name u)), (''role'', JString (role u))])
   \<and> (store_get t st' sid' = Some d \<and> passport_user d = Some (serializeUser u) \<longrightarrow>
        session_info_route (incoming t st' sid') =
          Json [(''loggedIn'', JBool True), (''email'', JString (email u)),
                (''name'', JString (name u)), (''role'', JString (role u))]
        \<and> snd (guarded_request t st' sid' handler) sid' =
            Some (d\<lparr>expiresAt := t + cookie_maxAge\<rparr>))"
proof -
  let ?J = "Json [(''loggedIn'', JBool True), (''email'', JString (email u)),
                (''name'', JString (name u)), (''role'', JString (role u))]"
  have a: "email u = hd (emails p) \<and> name u = displayName p \<and> role u = ''student''"
    using verify_Done_user [OF assms] by simp
  have b: "t1 < now + cookie_maxAge \<longrightarrow>
        session_info_route (incoming t1 (snd (login_callback now st sid p)) sid) = ?J
        \<and> fst (guarded_request t1 (snd (login_callback now st sid p)) sid session_info_handler) = ?J"
  proof
    assume h: "t1 < now + cookie_maxAge"
    obtain d1 where 1: "snd (login_callback now st sid p) sid = Some d1"
      and 2: "passport_user d1 = Some u" and 3: "expiresAt d1 = now + cookie_maxAge"
      using login_expiry [OF assms] by blast
    have "session_info_route (incoming t1 (snd (login_callback now st sid p)) sid) = ?J"
      using 1 2 by (rule session_info_of_live_record) (simp add: 3 h)
    then show "session_info_route (incoming t1 (snd (login_callback now st sid p)) sid) = ?J
        \<and> fst (guarded_request t1 (snd (login_callback now st sid p)) sid session_info_handler) = ?J"
      by (simp add: guarded_request_def session_info_route_def)
  qed
  have c: "t1 < now + cookie_maxAge \<and> t2 < t1 + cookie_maxAge \<longrightarrow>
        session_info_route
          (incoming t2 (snd (guarded_request t1 (snd (login_callback now st sid p)) sid handler))
             sid) = ?J"
  proof
    assume h: "t1 < now + cookie_maxAge \<and> t2 < t1 + cookie_maxAge"
    then have "t1 < now + cookie_maxAge"
      by simp
    from login_then_guarded [OF assms this]
    obtain d2 where 1: "snd (guarded_request t1 (snd (login_callback now st sid p)) sid handler) sid
        = Some d2"
      and 2: "passport_user d2 = Some u" and 3: "expiresAt d2 = t1 + cookie_maxAge"
      by blast
    show "session_info_route
          (incoming t2 (snd (guarded_request t1 (snd (login_callback now st sid p)) sid handler))
             sid) = ?J"
      using 1 2 by (rule session_info_of_live_record) (simp add: 3 h)
  qed
  have d: "store_get t st' sid' = Some d \<and> passport_user d = Some (serializeUser u) \<longrightarrow>
        session_info_route (incoming t st' sid') = ?J
        \<and> snd (guarded_request t st' sid' handler) sid' =
            Some (d\<lparr>expiresAt := t + cookie_maxAge\<rparr>)"
    by (simp add: session_info_of_record guarded_request_def refresh_live)
  from a b c d show ?thesis
    by blast
qed

theorem session_info_matches_login_witness:
  "verify \<lparr>emails = [''a@stu.pathfinder-mm.org''], displayName = ''A''\<rparr> =
     Done_user \<lparr>email = ''a@stu.pathfinder-mm.org'', name = ''A'', role = ''student''\<rparr>
   \<and> session_info_route (incoming 2000
        (snd (login_callback 1000 Map.empty ''s1''
           \<lparr>emails = [''a@stu.pathfinder-mm.org''], displayName = ''A''\<rparr>)) ''s1'') =
       Json [(''loggedIn'', JBool True), (''email'', JString ''a@stu.pathfinder-mm.org''),
             (''name'', JString ''A''), (''role'', JString ''student'')]
   \<and> session_info_route (incoming 1209601500
        (snd (guarded_request 2000
           (snd (login_callback 1000 Map.empty ''s1''
              \<lparr>emails = [''a@stu.pathfinder-mm.org''], displayName = ''A''\<rparr>))
           ''s1'' session_info_handler)) ''s1'') =
       Json [(''loggedIn'', JBool True), (''email'', JString ''a@stu.pathfinder-mm.org''),
             (''name'', JString ''A''), (''role'', JString ''student'')]"
proof -
  let ?u = "\<lparr>email = ''a@stu.pathfinder-mm.org'', name = ''A'', role = ''student''\<rparr>"
  let ?p = "\<lparr>emails = [''a@stu.pathfinder-mm.org''], displayName = ''A''\<rparr>"
  have v: "verify ?p = Done_user ?u"
    by (simp add: verify_def authorization_logic_def endsWith_def)
  have h1: "(2000::nat) < 1000 + cookie_maxAge"
    by (simp add: cookie_maxAge_def)
  have h2: "(1209601500::nat) < 2000 + cookie_maxAge"
    by (simp add: cookie_maxAge_def)
  note t = session_info_matches_login [OF v, where ?t1.0 = 2000 and now = 1000
      and ?t2.0 = 1209601500 and st = Map.empty and sid = "''s1''"
      and handler = session_info_handler]
  from t h1 have a: "session_info_route (incoming 2000
        (snd (login_callback 1000 Map.empty ''s1'' ?p)) ''s1'') =
       Json [(''loggedIn'', JBool True), (''email'', JString (email ?u)),
             (''name'', JString (name ?u)), (''role'', JString (role ?u))]"
    by blast
  from t h1 h2 have b: "session_info_route (incoming 1209601500
        (snd (guarded_request 2000 (snd (login_callback 1000 Map.empty ''s1'' ?p))
           ''s1'' session_info_handler)) ''s1'') =
       Json [(''loggedIn'', JBool True), (''email'', JString (email ?u)),
             (''name'', JString (name ?u)), (''role'', JString (role ?u))]"
    by blast
  from a b v show ?thesis
    by simp
qed

end
